theory Spec2Isabelle
  imports Complex_Main
begin

section \<open>The Audio service of flet-audio (src/flet_audio/audio.py)\<close>

text \<open>
  The module declares one class, \<^verbatim>\<open>Audio(ft.Service)\<close>: twelve plain fields with
  defaults, the validation hook \<^verbatim>\<open>before_update\<close>, seven coroutine methods
  (\<^verbatim>\<open>async def ..._async\<close>) that each await one call of the inherited
  \<^verbatim>\<open>_invoke_method_async\<close>, and five plain methods that hand the matching coroutine to
  \<^verbatim>\<open>asyncio.create_task\<close>.

  What the class inherits or imports from other packages is not part of the module and is
  kept apart from it here: the hook of the base class and the command channel
  \<^verbatim>\<open>_invoke_method_async\<close> are parameters of the model; the scheduling contract of
  \<^verbatim>\<open>asyncio.create_task\<close> is written out in its own subsection.
\<close>

subsection \<open>Values\<close>

text \<open>
  Exceptions, as values. \<^verbatim>\<open>AssertionError\<close> is what a failing \<^verbatim>\<open>assert\<close> raises,
  \<^verbatim>\<open>TypeError\<close> what a call raises that leaves a required parameter without a value,
  \<^verbatim>\<open>RuntimeError\<close> what \<^verbatim>\<open>asyncio.create_task\<close> raises outside a running loop;
  \<^verbatim>\<open>TimeoutError\<close> and \<^verbatim>\<open>RemoteError\<close> are the failures of the command channel.
\<close>

datatype exn =
    AssertionError string
  | TypeError string
  | RuntimeError string
  | TimeoutError
  | RemoteError string

text \<open>
  \<^verbatim>\<open>ft.Duration\<close> is a dataclass of the framework with six integer fields that all
  default to 0, so \<^verbatim>\<open>ft.Duration()\<close> is the span of length zero;
  \<^verbatim>\<open>ft.DurationValue\<close> is an integer or a \<^verbatim>\<open>Duration\<close>.
\<close>

record Duration =
  microseconds :: int
  milliseconds :: int
  seconds :: int
  minutes :: int
  hours :: int
  days :: int

definition Duration_init :: Duration where
  "Duration_init =
     \<lparr>microseconds = 0, milliseconds = 0, seconds = 0, minutes = 0, hours = 0, days = 0\<rparr>"

definition in_microseconds :: "Duration \<Rightarrow> int" where
  "in_microseconds d =
     microseconds d + 1000 * milliseconds d + 1000000 * seconds d
       + 60000000 * minutes d + 3600000000 * hours d + 86400000000 * days d"

datatype DurationValue = DInt int | DDuration Duration

text \<open>
  Modelled from the spec: \<^verbatim>\<open>ReleaseMode\<close>, imported from \<^verbatim>\<open>.types\<close>, which is not among
  the sources; the spec gives its members as RELEASE, LOOP and STOP.
\<close>

datatype ReleaseMode = RELEASE | LOOP | STOP

subsection \<open>The instance\<close>

text \<open>
  The fields of the class in the order of their declaration. \<^verbatim>\<open>ft.Number\<close> is an integer
  or a float and is never computed with in this module; the five event handlers are
  opaque values of a type \<open>'h\<close>.
\<close>

record 'h Audio =
  src :: "string option"
  src_base64 :: "string option"
  autoplay :: bool
  volume :: real
  balance :: real
  playback_rate :: real
  release_mode :: ReleaseMode
  on_loaded :: "'h option"
  on_duration_change :: "'h option"
  on_state_change :: "'h option"
  on_position_change :: "'h option"
  on_seek_complete :: "'h option"

text \<open>The instance that \<^verbatim>\<open>Audio()\<close> builds: every field at its declared default.\<close>

definition Audio_init :: "'h Audio" where
  "Audio_init =
     \<lparr>src = None, src_base64 = None, autoplay = False, volume = 1, balance = 0,
      playback_rate = 1, release_mode = RELEASE, on_loaded = None,
      on_duration_change = None, on_state_change = None, on_position_change = None,
      on_seek_complete = None\<rparr>"

text \<open>
  \<^verbatim>\<open>src\<close> and \<^verbatim>\<open>src_base64\<close> are plain fields: the statements
  \<^verbatim>\<open>audio.src = v\<close> and \<^verbatim>\<open>audio.src_base64 = v\<close> store the value and run no code of
  the class. The outcome is kept in the result so that it can be compared with the outcome
  of \<^verbatim>\<open>before_update\<close>.
\<close>

definition assign_src :: "string option \<Rightarrow> 'h Audio \<Rightarrow> (exn + unit) \<times> 'h Audio" where
  "assign_src v self = (Inr (), self\<lparr>src := v\<rparr>)"

definition assign_src_base64 :: "string option \<Rightarrow> 'h Audio \<Rightarrow> (exn + unit) \<times> 'h Audio" where
  "assign_src_base64 v self = (Inr (), self\<lparr>src_base64 := v\<rparr>)"

subsection \<open>Activation: \<^verbatim>\<open>before_update\<close>\<close>

text \<open>
  Python's truth value of an \<^verbatim>\<open>Optional[str]\<close>: \<^verbatim>\<open>None\<close> and the empty string are
  false, every other string is true. \<^verbatim>\<open>x or y\<close> evaluates to \<^verbatim>\<open>x\<close> when \<^verbatim>\<open>x\<close> is
  true and to \<^verbatim>\<open>y\<close> otherwise.
\<close>

fun truthy :: "string option \<Rightarrow> bool" where
  "truthy None = False"
| "truthy (Some s) = (s \<noteq> [])"

definition py_or :: "string option \<Rightarrow> string option \<Rightarrow> string option" where
  "py_or x y = (if truthy x then x else y)"

definition src_message :: string where
  "src_message = ''either src or src_base64 must be provided''"

text \<open>
  \<^verbatim>\<open>
  def before_update(self):
      super().before_update()
      assert self.src or self.src_base64, "either src or src_base64 must be provided"
  \<close>
  A method that may raise and may mutate \<^verbatim>\<open>self\<close> returns its outcome together with the
  instance as it leaves it. The hook of the base class belongs to the framework and is the
  parameter \<open>base\<close>; if it raises, the assertion is not reached. The assertion is modelled
  as the interpreter runs it by default (assertions enabled).
\<close>

type_synonym 'h hook = "'h Audio \<Rightarrow> (exn + unit) \<times> 'h Audio"

definition before_update :: "'h hook \<Rightarrow> 'h Audio \<Rightarrow> (exn + unit) \<times> 'h Audio" where
  "before_update base self =
     (case base self of
        (Inl e, self') \<Rightarrow> (Inl e, self')
      | (Inr u, self') \<Rightarrow>
          if truthy (py_or (src self') (src_base64 self')) then (Inr (), self')
          else (Inl (AssertionError src_message), self'))"

text \<open>The hook of the framework's base class has an empty body.\<close>

definition empty_hook :: "'h hook" where
  "empty_hook self = (Inr (), self)"

subsection \<open>Calls, parameters and default values\<close>

text \<open>
  A call either passes a parameter (\<open>Given\<close>) or leaves it out (\<open>Omitted\<close>); a
  signature either gives the parameter a default or requires it. Binding follows Python:
  a value that is passed is taken, a default fills in for one that is not, and a required
  parameter left out makes the call raise \<^verbatim>\<open>TypeError\<close> before the body runs.
  \<^verbatim>\<open>None\<close> passed for \<^verbatim>\<open>timeout\<close> is a value that is passed: \<open>Given None\<close>.
  The message of the \<^verbatim>\<open>TypeError\<close> is abridged: the interpreter puts the qualified name
  of the function in front and quotes the name of the parameter.
\<close>

datatype 'a arg = Omitted | Given 'a

datatype 'a param = Required | Default 'a

fun bind_arg :: "string \<Rightarrow> 'a param \<Rightarrow> 'a arg \<Rightarrow> exn + 'a" where
  "bind_arg n p (Given v) = Inr v"
| "bind_arg n (Default d) Omitted = Inr d"
| "bind_arg n Required Omitted =
     Inl (TypeError (''missing 1 required positional argument: '' @ n))"

text \<open>The value a parameter with a default is bound to.\<close>

definition value_or :: "'a \<Rightarrow> 'a arg \<Rightarrow> 'a" where
  "value_or d a = (case a of Omitted \<Rightarrow> d | Given v \<Rightarrow> v)"

definition and_then :: "exn + 'a \<Rightarrow> ('a \<Rightarrow> exn + 'b) \<Rightarrow> exn + 'b" where
  "and_then r f = (case r of Inl e \<Rightarrow> Inl e | Inr v \<Rightarrow> f v)"

subsection \<open>The command channel and coroutines\<close>

text \<open>
  One call \<^verbatim>\<open>self._invoke_method_async(name, arguments, timeout=timeout)\<close>. The second
  parameter is passed by \<^verbatim>\<open>play_async\<close> and \<^verbatim>\<open>seek_async\<close> only, as a dict with
  the single key \<^verbatim>\<open>"position"\<close>; \<^verbatim>\<open>timeout\<close> is passed by every call.
\<close>

record command =
  method_name :: string
  arguments :: "(string \<times> DurationValue) list arg"
  timeout_kw :: "real option"

text \<open>
  \<^verbatim>\<open>_invoke_method_async\<close> is inherited from the framework: it is the parameter
  \<open>invoke\<close>, any function that takes the instance and the command, acts on a state \<open>'s\<close>
  of its own (the connection, the remote player) and ends with a reply or an exception.
  A coroutine object is a computation over that state which has not run yet.
\<close>

type_synonym ('s, 'r) coroutine = "'s \<Rightarrow> (exn + 'r) \<times> 's"

type_synonym ('h, 's) channel = "'h Audio \<Rightarrow> command \<Rightarrow> ('s, Duration option) coroutine"

text \<open>
  The body \<^verbatim>\<open>await c\<close> of a coroutine that returns nothing drops the reply;
  an exception of \<open>c\<close> leaves the body, since none of the bodies has a handler.
  The body \<^verbatim>\<open>return await c\<close> is \<open>c\<close> itself.
\<close>

definition await_only :: "('s, 'r) coroutine \<Rightarrow> ('s, unit) coroutine" where
  "await_only c s = (case c s of (Inl e, s') \<Rightarrow> (Inl e, s') | (Inr v, s') \<Rightarrow> (Inr (), s'))"

text \<open>
  Calling an \<^verbatim>\<open>async def\<close> binds the parameters and returns the coroutine object
  without running the body; \<^verbatim>\<open>await obj.method(...)\<close> in a caller evaluates the call
  and then runs the coroutine to its end.
\<close>

definition await :: "exn + ('s, 'r) coroutine \<Rightarrow> ('s, 'r) coroutine" where
  "await call s = (case call of Inl e \<Rightarrow> (Inl e, s) | Inr c \<Rightarrow> c s)"

subsection \<open>The suspending forms\<close>

text \<open>
  \<^verbatim>\<open>
  async def play_async(self, position=ft.Duration(), timeout=10):
      await self._invoke_method_async("play", {"position": position}, timeout=timeout)
  async def pause_async(self, timeout=10):
      await self._invoke_method_async("pause", timeout=timeout)
  async def resume_async(self, timeout=10):
      await self._invoke_method_async("resume", timeout=timeout)
  async def release_async(self, timeout=10):
      await self._invoke_method_async("release", timeout=timeout)
  async def seek_async(self, position, timeout=10):
      await self._invoke_method_async("seek", {"position": position}, timeout=timeout)
  async def get_duration_async(self, timeout=10):
      return await self._invoke_method_async("get_duration", timeout=timeout)
  async def get_current_position_async(self, timeout=10):
      return await self._invoke_method_async("get_current_position", timeout=timeout)
  \<close>
  Each definition gives the call of the method: the binding of its parameters, then the
  coroutine object.
\<close>

definition play_async ::
  "('h, 's) channel \<Rightarrow> 'h Audio \<Rightarrow> DurationValue arg \<Rightarrow> real option arg
     \<Rightarrow> exn + ('s, unit) coroutine" where
  "play_async invoke self position timeout =
     and_then (bind_arg ''position'' (Default (DDuration Duration_init)) position) (\<lambda>p.
     and_then (bind_arg ''timeout'' (Default (Some 10)) timeout) (\<lambda>t.
       Inr (await_only (invoke self
         \<lparr>method_name = ''play'', arguments = Given [(''position'', p)], timeout_kw = t\<rparr>))))"

definition pause_async ::
  "('h, 's) channel \<Rightarrow> 'h Audio \<Rightarrow> real option arg \<Rightarrow> exn + ('s, unit) coroutine" where
  "pause_async invoke self timeout =
     and_then (bind_arg ''timeout'' (Default (Some 10)) timeout) (\<lambda>t.
       Inr (await_only (invoke self
         \<lparr>method_name = ''pause'', arguments = Omitted, timeout_kw = t\<rparr>)))"

definition resume_async ::
  "('h, 's) channel \<Rightarrow> 'h Audio \<Rightarrow> real option arg \<Rightarrow> exn + ('s, unit) coroutine" where
  "resume_async invoke self timeout =
     and_then (bind_arg ''timeout'' (Default (Some 10)) timeout) (\<lambda>t.
       Inr (await_only (invoke self
         \<lparr>method_name = ''resume'', arguments = Omitted, timeout_kw = t\<rparr>)))"

definition release_async ::
  "('h, 's) channel \<Rightarrow> 'h Audio \<Rightarrow> real option arg \<Rightarrow> exn + ('s, unit) coroutine" where
  "release_async invoke self timeout =
     and_then (bind_arg ''timeout'' (Default (Some 10)) timeout) (\<lambda>t.
       Inr (await_only (invoke self
         \<lparr>method_name = ''release'', arguments = Omitted, timeout_kw = t\<rparr>)))"

definition seek_async ::
  "('h, 's) channel \<Rightarrow> 'h Audio \<Rightarrow> DurationValue arg \<Rightarrow> real option arg
     \<Rightarrow> exn + ('s, unit) coroutine" where
  "seek_async invoke self position timeout =
     and_then (bind_arg ''position'' Required position) (\<lambda>p.
     and_then (bind_arg ''timeout'' (Default (Some 10)) timeout) (\<lambda>t.
       Inr (await_only (invoke self
         \<lparr>method_name = ''seek'', arguments = Given [(''position'', p)], timeout_kw = t\<rparr>))))"

definition get_duration_async ::
  "('h, 's) channel \<Rightarrow> 'h Audio \<Rightarrow> real option arg
     \<Rightarrow> exn + ('s, Duration option) coroutine" where
  "get_duration_async invoke self timeout =
     and_then (bind_arg ''timeout'' (Default (Some 10)) timeout) (\<lambda>t.
       Inr (invoke self
         \<lparr>method_name = ''get_duration'', arguments = Omitted, timeout_kw = t\<rparr>))"

definition get_current_position_async ::
  "('h, 's) channel \<Rightarrow> 'h Audio \<Rightarrow> real option arg
     \<Rightarrow> exn + ('s, Duration option) coroutine" where
  "get_current_position_async invoke self timeout =
     and_then (bind_arg ''timeout'' (Default (Some 10)) timeout) (\<lambda>t.
       Inr (invoke self
         \<lparr>method_name = ''get_current_position'', arguments = Omitted, timeout_kw = t\<rparr>))"

subsection \<open>Scheduling: \<^verbatim>\<open>asyncio.create_task\<close>\<close>

text \<open>
  The event loop belongs to the standard library; this is its documented contract, as far
  as the module relies on it, with one simplification: a task runs its coroutine in one
  piece (each coroutine of the module has a single suspension point, the reply of the
  channel).
  \<^item> \<^verbatim>\<open>create_task(coro)\<close> raises \<^verbatim>\<open>RuntimeError\<close> where no loop is running;
    otherwise it appends a task for \<open>coro\<close> to the tasks that are ready and returns at
    once. Nothing of \<open>coro\<close> runs before the loop takes its next turn.
  \<^item> A turn of the loop runs the first ready task. An exception that leaves the coroutine
    is caught by the task and stored in it; the turn itself never fails, and the other
    tasks stay scheduled. The five methods below keep no reference to the task, so a stored
    exception is never retrieved; the loop's exception handler logs it when the task is
    disposed of ("Task exception was never retrieved"), which \<open>reported\<close> records.
\<close>

record 's loop =
  running :: bool
  ready :: "('s, unit) coroutine list"
  reported :: "exn list"

definition create_task :: "('s, unit) coroutine \<Rightarrow> 's loop \<Rightarrow> (exn + unit) \<times> 's loop" where
  "create_task coro l =
     (if running l then (Inr (), l\<lparr>ready := ready l @ [coro]\<rparr>)
      else (Inl (RuntimeError ''no running event loop''), l))"

definition run_once :: "'s loop \<Rightarrow> 's \<Rightarrow> 's loop \<times> 's" where
  "run_once l s =
     (case ready l of
        [] \<Rightarrow> (l, s)
      | coro # rest \<Rightarrow>
          (case coro s of
             (Inl e, s') \<Rightarrow> (l\<lparr>ready := rest, reported := reported l @ [e]\<rparr>, s')
           | (Inr u, s') \<Rightarrow> (l\<lparr>ready := rest\<rparr>, s')))"

subsection \<open>The fire-and-forget forms\<close>

text \<open>
  \<^verbatim>\<open>
  def play(self, position=ft.Duration(), timeout=10):
      asyncio.create_task(self.play_async(position, timeout=timeout))
  \<close>
  The parameters are bound, the coroutine object is made from the bound values, it is
  handed to \<^verbatim>\<open>create_task\<close>, and the task that comes back is dropped. An exception of
  any of the three steps leaves the method. \<^verbatim>\<open>pause\<close>, \<^verbatim>\<open>resume\<close>,
  \<^verbatim>\<open>release\<close> and \<^verbatim>\<open>seek\<close> are written the same way, \<^verbatim>\<open>seek\<close> with
  \<^verbatim>\<open>position\<close> as its first parameter and no default for it.
\<close>

definition schedule :: "exn + ('s, unit) coroutine \<Rightarrow> 's loop \<Rightarrow> (exn + unit) \<times> 's loop" where
  "schedule call l = (case call of Inl e \<Rightarrow> (Inl e, l) | Inr coro \<Rightarrow> create_task coro l)"

definition play ::
  "('h, 's) channel \<Rightarrow> 'h Audio \<Rightarrow> DurationValue arg \<Rightarrow> real option arg
     \<Rightarrow> 's loop \<Rightarrow> (exn + unit) \<times> 's loop" where
  "play invoke self position timeout l =
     schedule
       (and_then (bind_arg ''position'' (Default (DDuration Duration_init)) position) (\<lambda>p.
        and_then (bind_arg ''timeout'' (Default (Some 10)) timeout) (\<lambda>t.
          play_async invoke self (Given p) (Given t)))) l"

definition pause ::
  "('h, 's) channel \<Rightarrow> 'h Audio \<Rightarrow> real option arg \<Rightarrow> 's loop \<Rightarrow> (exn + unit) \<times> 's loop" where
  "pause invoke self timeout l =
     schedule
       (and_then (bind_arg ''timeout'' (Default (Some 10)) timeout) (\<lambda>t.
          pause_async invoke self (Given t))) l"

definition resume ::
  "('h, 's) channel \<Rightarrow> 'h Audio \<Rightarrow> real option arg \<Rightarrow> 's loop \<Rightarrow> (exn + unit) \<times> 's loop" where
  "resume invoke self timeout l =
     schedule
       (and_then (bind_arg ''timeout'' (Default (Some 10)) timeout) (\<lambda>t.
          resume_async invoke self (Given t))) l"

definition release ::
  "('h, 's) channel \<Rightarrow> 'h Audio \<Rightarrow> real option arg \<Rightarrow> 's loop \<Rightarrow> (exn + unit) \<times> 's loop" where
  "release invoke self timeout l =
     schedule
       (and_then (bind_arg ''timeout'' (Default (Some 10)) timeout) (\<lambda>t.
          release_async invoke self (Given t))) l"

definition seek ::
  "('h, 's) channel \<Rightarrow> 'h Audio \<Rightarrow> DurationValue arg \<Rightarrow> real option arg
     \<Rightarrow> 's loop \<Rightarrow> (exn + unit) \<times> 's loop" where
  "seek invoke self position timeout l =
     schedule
       (and_then (bind_arg ''position'' Required position) (\<lambda>p.
        and_then (bind_arg ''timeout'' (Default (Some 10)) timeout) (\<lambda>t.
          seek_async invoke self (Given p) (Given t)))) l"

text \<open>The names the class body defines as methods, in the order of the source.\<close>

definition Audio_methods :: "string list" where
  "Audio_methods =
     [''before_update'', ''play_async'', ''play'', ''pause_async'', ''pause'',
      ''resume_async'', ''resume'', ''release_async'', ''release'', ''seek_async'', ''seek'',
      ''get_duration_async'', ''get_current_position_async'']"

subsection \<open>What lies outside the module\<close>

text \<open>
  Modelled from the spec: the choice of the effective source. The module holds the two
  fields and documents, on both, that \<^verbatim>\<open>src_base64\<close> has priority if both are
  provided; the code that picks the source is the client-side player, which is not among
  the sources. The spec: if both are set, \<^verbatim>\<open>src_base64\<close> takes precedence.
\<close>

datatype source = From_src_base64 string | From_src string

definition effective_source :: "'h Audio \<Rightarrow> source option" where
  "effective_source self =
     (if truthy (src_base64 self) then map_option From_src_base64 (src_base64 self)
      else if truthy (src self) then map_option From_src (src self)
      else None)"

text \<open>
  Modelled from the spec: a command channel as section 4.1 of the spec describes it, used
  as a concrete channel where the theorems below are instantiated. The remote side answers
  after \<open>latency\<close> seconds with \<open>answer\<close>; a call whose timeout is a number shorter than
  the latency ends in \<^verbatim>\<open>TimeoutError\<close>, a call whose timeout is \<^verbatim>\<open>None\<close> waits for
  the answer however long it takes. \<open>received\<close> lists the commands sent so far.
\<close>

record remote =
  latency :: real
  answer :: "exn + Duration option"
  received :: "command list"

definition send :: "('h, remote) channel" where
  "send self c r =
     (case timeout_kw c of
        None \<Rightarrow> (answer r, r\<lparr>received := received r @ [c]\<rparr>)
      | Some t \<Rightarrow>
          if latency r \<le> t then (answer r, r\<lparr>received := received r @ [c]\<rparr>)
          else (Inl TimeoutError, r\<lparr>received := received r @ [c]\<rparr>))"

section \<open>Properties of activation\<close>

lemma truthy_py_or: "truthy (py_or x y) \<longleftrightarrow> truthy x \<or> truthy y"
  by (simp add: py_or_def)

lemma truthy_iff: "truthy x \<longleftrightarrow> x \<noteq> None \<and> x \<noteq> Some []"
  by (cases x) auto

lemma before_update_after_base:
  assumes "base self = (Inr (), self)"
  shows "before_update base self =
           (if truthy (src self) \<or> truthy (src_base64 self) then (Inr (), self)
            else (Inl (AssertionError src_message), self))"
  using assms by (simp add: before_update_def truthy_py_or)

text \<open>
  C1. Where the base hook has done nothing, activation fails exactly when \<^verbatim>\<open>src\<close> and
  \<^verbatim>\<open>src_base64\<close> are both \<^verbatim>\<open>None\<close> or the empty string, the failure is the assertion
  error with the message "either src or src_base64 must be provided", and otherwise
  activation succeeds. Assigning either field never fails, whatever is assigned: an instance
  with both fields empty can be built, and only \<^verbatim>\<open>before_update\<close> rejects it.
\<close>

theorem before_update_fails_iff_no_source:
  assumes "base self = (Inr (), self)"
  shows "(fst (before_update base self) = Inl (AssertionError src_message)
            \<longleftrightarrow> src self \<in> {None, Some []} \<and> src_base64 self \<in> {None, Some []})
       \<and> (fst (before_update base self) = Inr ()
            \<longleftrightarrow> \<not> (src self \<in> {None, Some []} \<and> src_base64 self \<in> {None, Some []}))
       \<and> fst (assign_src v self) = Inr ()
       \<and> fst (assign_src_base64 w self) = Inr ()"
  using assms
  by (simp add: before_update_after_base truthy_iff assign_src_def assign_src_base64_def)

theorem before_update_fails_iff_no_source_witness:
  "empty_hook (Audio_init :: nat Audio) = (Inr (), Audio_init)
   \<and> fst (before_update empty_hook (Audio_init :: nat Audio)) = Inl (AssertionError src_message)
   \<and> fst (assign_src (Some []) (Audio_init :: nat Audio)) = Inr ()"
proof -
  have h: "empty_hook (Audio_init :: nat Audio) = (Inr (), Audio_init)"
    by (simp add: empty_hook_def)
  show ?thesis
    using h before_update_fails_iff_no_source
            [where base = empty_hook and self = "Audio_init :: nat Audio" and v = "Some []"
               and w = None, OF h]
    by (simp add: Audio_init_def)
qed

text \<open>
  C8. Activation looks at \<^verbatim>\<open>src\<close> and \<^verbatim>\<open>src_base64\<close> only: with one of them
  non-empty it succeeds whatever \<^verbatim>\<open>volume\<close>, \<^verbatim>\<open>balance\<close> and \<^verbatim>\<open>playback_rate\<close>
  are set to, inside or outside their documented ranges.
\<close>

theorem before_update_ignores_numeric_fields:
  assumes "truthy (src self) \<or> truthy (src_base64 self)"
    and "base (self\<lparr>volume := v, balance := b, playback_rate := r\<rparr>)
           = (Inr (), self\<lparr>volume := v, balance := b, playback_rate := r\<rparr>)"
  shows "fst (before_update base (self\<lparr>volume := v, balance := b, playback_rate := r\<rparr>))
           = Inr ()"
  using assms by (simp add: before_update_after_base)

theorem before_update_ignores_numeric_fields_witness:
  "truthy (src ((Audio_init :: nat Audio)\<lparr>src := Some ''a.mp3''\<rparr>))
   \<and> fst (before_update empty_hook
        ((Audio_init :: nat Audio)\<lparr>src := Some ''a.mp3'', volume := 7, balance := - 3,
                                  playback_rate := - 1\<rparr>)) = Inr ()"
proof -
  let ?a = "(Audio_init :: nat Audio)\<lparr>src := Some ''a.mp3''\<rparr>"
  have s: "truthy (src ?a) \<or> truthy (src_base64 ?a)"
    by simp
  have h: "empty_hook (?a\<lparr>volume := 7, balance := - 3, playback_rate := - 1\<rparr>)
             = (Inr (), ?a\<lparr>volume := 7, balance := - 3, playback_rate := - 1\<rparr>)"
    by (simp add: empty_hook_def)
  show ?thesis
    using s before_update_ignores_numeric_fields
            [where base = empty_hook and self = ?a and v = 7 and b = "- 3" and r = "- 1",
             OF s h]
    by simp
qed

text \<open>
  C10. Activation writes to no field. Whatever the base hook does, \<^verbatim>\<open>before_update\<close>
  leaves the instance as the base hook left it, on success and on failure alike; where the
  base hook has changed nothing, the instance after \<^verbatim>\<open>before_update\<close> is the instance
  before it, so each of its twelve fields has kept its value.
\<close>

theorem before_update_changes_no_field:
  "snd (before_update base self) = snd (base self)
   \<and> (base self = (Inr (), self) \<longrightarrow>
        snd (before_update base self) = self
        \<and> src (snd (before_update base self)) = src self
        \<and> src_base64 (snd (before_update base self)) = src_base64 self
        \<and> autoplay (snd (before_update base self)) = autoplay self
        \<and> volume (snd (before_update base self)) = volume self
        \<and> balance (snd (before_update base self)) = balance self
        \<and> playback_rate (snd (before_update base self)) = playback_rate self
        \<and> release_mode (snd (before_update base self)) = release_mode self
        \<and> on_loaded (snd (before_update base self)) = on_loaded self
        \<and> on_duration_change (snd (before_update base self)) = on_duration_change self
        \<and> on_state_change (snd (before_update base self)) = on_state_change self
        \<and> on_position_change (snd (before_update base self)) = on_position_change self
        \<and> on_seek_complete (snd (before_update base self)) = on_seek_complete self)"
proof -
  have frame: "snd (before_update base self) = snd (base self)"
    by (simp add: before_update_def split: prod.splits sum.splits)
  then show ?thesis by simp
qed

theorem before_update_changes_no_field_witness:
  "snd (before_update empty_hook (Audio_init :: nat Audio)) = Audio_init
   \<and> fst (before_update empty_hook (Audio_init :: nat Audio)) \<noteq> Inr ()
   \<and> snd (before_update empty_hook ((Audio_init :: nat Audio)\<lparr>src := Some ''a.mp3''\<rparr>))
       = Audio_init\<lparr>src := Some ''a.mp3''\<rparr>
   \<and> fst (before_update empty_hook ((Audio_init :: nat Audio)\<lparr>src := Some ''a.mp3''\<rparr>))
       = Inr ()"
proof -
  have h: "empty_hook x = (Inr (), x)" for x :: "nat Audio"
    by (simp add: empty_hook_def)
  have failing: "fst (before_update empty_hook (Audio_init :: nat Audio)) \<noteq> Inr ()"
    by (simp add: before_update_after_base [OF h] Audio_init_def)
  have passing: "fst (before_update empty_hook ((Audio_init :: nat Audio)\<lparr>src := Some ''a.mp3''\<rparr>))
                   = Inr ()"
    by (simp add: before_update_after_base [OF h])
  show ?thesis
    using before_update_changes_no_field [of empty_hook "Audio_init :: nat Audio"]
          before_update_changes_no_field
            [of empty_hook "(Audio_init :: nat Audio)\<lparr>src := Some ''a.mp3''\<rparr>"]
          failing passing
    by (simp add: h)
qed

section \<open>Properties of the method pairs\<close>

lemma bind_default: "bind_arg n (Default d) a = Inr (value_or d a)"
  by (cases a) (simp_all add: value_or_def)

lemma and_then_Inr: "and_then (Inr v) f = f v"
  by (simp add: and_then_def)

lemma and_then_Inl: "and_then (Inl e) f = Inl e"
  by (simp add: and_then_def)

lemma await_Inr: "await (Inr c) = c"
  by (rule ext) (simp add: await_def)

lemma await_only_fst:
  "fst (await_only c s) = (case fst (c s) of Inl e \<Rightarrow> Inl e | Inr v \<Rightarrow> Inr ())"
  by (simp add: await_only_def split: prod.splits sum.splits)

lemma await_only_snd: "snd (await_only c s) = snd (c s)"
  by (simp add: await_only_def split: prod.splits sum.splits)

lemma play_async_eq:
  "play_async invoke self position timeout =
     Inr (await_only (invoke self
       \<lparr>method_name = ''play'',
        arguments = Given [(''position'', value_or (DDuration Duration_init) position)],
        timeout_kw = value_or (Some 10) timeout\<rparr>))"
  by (simp add: play_async_def bind_default and_then_Inr)

lemma pause_async_eq:
  "pause_async invoke self timeout =
     Inr (await_only (invoke self
       \<lparr>method_name = ''pause'', arguments = Omitted,
        timeout_kw = value_or (Some 10) timeout\<rparr>))"
  by (simp add: pause_async_def bind_default and_then_Inr)

lemma resume_async_eq:
  "resume_async invoke self timeout =
     Inr (await_only (invoke self
       \<lparr>method_name = ''resume'', arguments = Omitted,
        timeout_kw = value_or (Some 10) timeout\<rparr>))"
  by (simp add: resume_async_def bind_default and_then_Inr)

lemma release_async_eq:
  "release_async invoke self timeout =
     Inr (await_only (invoke self
       \<lparr>method_name = ''release'', arguments = Omitted,
        timeout_kw = value_or (Some 10) timeout\<rparr>))"
  by (simp add: release_async_def bind_default and_then_Inr)

lemma seek_async_eq:
  "seek_async invoke self (Given p) timeout =
     Inr (await_only (invoke self
       \<lparr>method_name = ''seek'', arguments = Given [(''position'', p)],
        timeout_kw = value_or (Some 10) timeout\<rparr>))"
  by (simp add: seek_async_def bind_default and_then_Inr)

lemma seek_async_no_position:
  "seek_async invoke self Omitted timeout =
     Inl (TypeError ''missing 1 required positional argument: position'')"
  by (simp add: seek_async_def and_then_Inl)

lemma get_duration_async_eq:
  "get_duration_async invoke self timeout =
     Inr (invoke self
       \<lparr>method_name = ''get_duration'', arguments = Omitted,
        timeout_kw = value_or (Some 10) timeout\<rparr>)"
  by (simp add: get_duration_async_def bind_default and_then_Inr)

lemma get_current_position_async_eq:
  "get_current_position_async invoke self timeout =
     Inr (invoke self
       \<lparr>method_name = ''get_current_position'', arguments = Omitted,
        timeout_kw = value_or (Some 10) timeout\<rparr>)"
  by (simp add: get_current_position_async_def bind_default and_then_Inr)

lemma value_or_Given: "value_or d (Given v) = v"
  by (simp add: value_or_def)

lemma value_or_Omitted: "value_or d Omitted = d"
  by (simp add: value_or_def)

lemma schedule_Inr: "schedule (Inr c) l = create_task c l"
  by (simp add: schedule_def)

lemma schedule_Inl: "schedule (Inl e) l = (Inl e, l)"
  by (simp add: schedule_def)

lemma play_eq:
  "play invoke self position timeout l =
     create_task (await_only (invoke self
       \<lparr>method_name = ''play'',
        arguments = Given [(''position'', value_or (DDuration Duration_init) position)],
        timeout_kw = value_or (Some 10) timeout\<rparr>)) l"
  by (simp add: play_def bind_default and_then_Inr play_async_eq value_or_Given schedule_Inr)

lemma pause_eq:
  "pause invoke self timeout l =
     create_task (await_only (invoke self
       \<lparr>method_name = ''pause'', arguments = Omitted,
        timeout_kw = value_or (Some 10) timeout\<rparr>)) l"
  by (simp add: pause_def bind_default and_then_Inr pause_async_eq value_or_Given schedule_Inr)

lemma resume_eq:
  "resume invoke self timeout l =
     create_task (await_only (invoke self
       \<lparr>method_name = ''resume'', arguments = Omitted,
        timeout_kw = value_or (Some 10) timeout\<rparr>)) l"
  by (simp add: resume_def bind_default and_then_Inr resume_async_eq value_or_Given schedule_Inr)

lemma release_eq:
  "release invoke self timeout l =
     create_task (await_only (invoke self
       \<lparr>method_name = ''release'', arguments = Omitted,
        timeout_kw = value_or (Some 10) timeout\<rparr>)) l"
  by (simp add: release_def bind_default and_then_Inr release_async_eq value_or_Given schedule_Inr)

lemma seek_eq:
  "seek invoke self (Given p) timeout l =
     create_task (await_only (invoke self
       \<lparr>method_name = ''seek'', arguments = Given [(''position'', p)],
        timeout_kw = value_or (Some 10) timeout\<rparr>)) l"
  by (simp add: seek_def bind_default and_then_Inr seek_async_eq value_or_Given schedule_Inr)

lemma seek_no_position:
  "seek invoke self Omitted timeout l =
     (Inl (TypeError ''missing 1 required positional argument: position''), l)"
  by (simp add: seek_def and_then_Inl schedule_Inl)

lemma create_task_fst:
  "fst (create_task c l) = (if running l then Inr () else Inl (RuntimeError ''no running event loop''))"
  by (simp add: create_task_def)

lemma create_task_snd:
  "snd (create_task c l) = (if running l then l\<lparr>ready := ready l @ [c]\<rparr> else l)"
  by (simp add: create_task_def)

lemma run_once_failure:
  assumes "ready l = coro # rest" and "fst (coro s) = Inl e"
  shows "run_once l s = (l\<lparr>ready := rest, reported := reported l @ [e]\<rparr>, snd (coro s))"
  using assms by (cases "coro s") (auto simp add: run_once_def split: sum.splits)

lemma run_once_success:
  assumes "ready l = coro # rest" and "fst (coro s) = Inr u"
  shows "run_once l s = (l\<lparr>ready := rest\<rparr>, snd (coro s))"
  using assms by (cases "coro s") (auto simp add: run_once_def split: sum.splits)



lemma create_task_await_only:
  "fst (create_task c l) =
     (if running l then Inr () else Inl (RuntimeError ''no running event loop''))
   \<and> snd (create_task c l) = (if running l then l\<lparr>ready := ready l @ [c]\<rparr> else l)"
  by (simp add: create_task_def)

lemma run_single_failure:
  assumes "fst (c s) = Inl e"
  shows "run_once (l\<lparr>ready := [await_only c]\<rparr>) s
           = (l\<lparr>ready := [], reported := reported l @ [e]\<rparr>, snd (c s))"
  using assms
  by (cases "c s") (simp add: run_once_def await_only_def)

lemma run_single_state:
  "snd (run_once (l\<lparr>ready := [await_only c]\<rparr>) s) = snd (c s)"
  by (cases "c s") (auto simp add: run_once_def await_only_def split: sum.splits)

text \<open>
  C2. For each of play, pause, resume, release and seek (called with its position), the
  plain form ends without an exception wherever a loop is running, and with the \<^verbatim>\<open>RuntimeError\<close> of
  \<^verbatim>\<open>create_task\<close> where none is: its outcome does not depend on the channel, so no
  failure of the command reaches the caller. It runs nothing: the loop has one more ready
  task and is otherwise unchanged. When the loop runs that task and the command fails, the
  task keeps the exception, the loop reports it and goes on; the turn of the loop itself
  does not fail.
\<close>

theorem fire_and_forget_never_raises:
  "\<forall>(form, cmd) \<in>
      {(play invoke self position timeout,
        \<lparr>method_name = ''play'',
         arguments = Given [(''position'', value_or (DDuration Duration_init) position)],
         timeout_kw = value_or (Some 10) timeout\<rparr>),
       (pause invoke self timeout,
        \<lparr>method_name = ''pause'', arguments = Omitted,
         timeout_kw = value_or (Some 10) timeout\<rparr>),
       (resume invoke self timeout,
        \<lparr>method_name = ''resume'', arguments = Omitted,
         timeout_kw = value_or (Some 10) timeout\<rparr>),
       (release invoke self timeout,
        \<lparr>method_name = ''release'', arguments = Omitted,
         timeout_kw = value_or (Some 10) timeout\<rparr>),
       (seek invoke self (Given p) timeout,
        \<lparr>method_name = ''seek'', arguments = Given [(''position'', p)],
         timeout_kw = value_or (Some 10) timeout\<rparr>)}.
     fst (form l) = (if running l then Inr () else Inl (RuntimeError ''no running event loop''))
     \<and> snd (form l)
         = (if running l then l\<lparr>ready := ready l @ [await_only (invoke self cmd)]\<rparr> else l)
     \<and> (running l \<and> ready l = [] \<and> fst (invoke self cmd s) = Inl e \<longrightarrow>
          run_once (snd (form l)) s
            = (l\<lparr>ready := [], reported := reported l @ [e]\<rparr>, snd (invoke self cmd s)))"
  by (simp add: play_eq pause_eq resume_eq release_eq seek_eq create_task_await_only
      run_single_failure)

theorem fire_and_forget_never_raises_witness:
  "fst (play send (Audio_init :: nat Audio) Omitted (Given (Some 0))
         \<lparr>running = True, ready = [], reported = []\<rparr>) = Inr ()
   \<and> run_once (snd (play send (Audio_init :: nat Audio) Omitted (Given (Some 0))
         \<lparr>running = True, ready = [], reported = []\<rparr>))
         \<lparr>latency = 1, answer = Inr None, received = []\<rparr>
       = (\<lparr>running = True, ready = [], reported = [TimeoutError]\<rparr>,
          \<lparr>latency = 1, answer = Inr None,
           received = [\<lparr>method_name = ''play'',
                        arguments = Given [(''position'', DDuration Duration_init)],
                        timeout_kw = Some 0\<rparr>]\<rparr>)"
proof -
  note all_forms =
    fire_and_forget_never_raises
      [of send "Audio_init :: nat Audio" Omitted "Given (Some 0)" "DInt 0"
          "\<lparr>running = True, ready = [], reported = []\<rparr>"
          "\<lparr>latency = 1, answer = Inr None, received = []\<rparr>" TimeoutError,
       unfolded ball_simps prod.case]
  note for_play = all_forms [THEN conjunct1]
  have returns: "fst (play send (Audio_init :: nat Audio) Omitted (Given (Some 0))
                   \<lparr>running = True, ready = [], reported = []\<rparr>) = Inr ()"
    using for_play [THEN conjunct1] by simp
  have runs: "run_once (snd (play send (Audio_init :: nat Audio) Omitted (Given (Some 0))
                 \<lparr>running = True, ready = [], reported = []\<rparr>))
                 \<lparr>latency = 1, answer = Inr None, received = []\<rparr>
               = (\<lparr>running = True, ready = [], reported = [TimeoutError]\<rparr>,
                  \<lparr>latency = 1, answer = Inr None,
                   received = [\<lparr>method_name = ''play'',
                                arguments = Given [(''position'', DDuration Duration_init)],
                                timeout_kw = Some 0\<rparr>]\<rparr>)"
    using for_play [THEN conjunct2, THEN conjunct2] by (simp add: send_def value_or_def)
  show ?thesis
    using returns runs by (rule conjI)
qed



text \<open>
  C3. A call of \<^verbatim>\<open>play_async\<close> without a position makes the coroutine that sends
  "play" with \<^verbatim>\<open>{"position": ft.Duration()}\<close>, and a call of \<^verbatim>\<open>play\<close> without a
  position hands that coroutine to \<^verbatim>\<open>create_task\<close>; \<^verbatim>\<open>ft.Duration()\<close> has all six
  fields 0 and is the span of length zero. So the call without a position is the call with
  \<^verbatim>\<open>ft.Duration()\<close>. \<^verbatim>\<open>seek\<close> and \<^verbatim>\<open>seek_async\<close> have no default for the
  position: a call without it raises \<^verbatim>\<open>TypeError\<close>, schedules nothing and makes no
  coroutine, while a call with a position makes one.
\<close>

theorem play_position_defaults_seek_requires_it:
  "play_async invoke self Omitted timeout
     = play_async invoke self (Given (DDuration Duration_init)) timeout
 \<and> play invoke self Omitted timeout l
     = play invoke self (Given (DDuration Duration_init)) timeout l
 \<and> in_microseconds Duration_init = 0
 \<and> seek_async invoke self Omitted timeout
     = Inl (TypeError ''missing 1 required positional argument: position'')
 \<and> seek invoke self Omitted timeout l
     = (Inl (TypeError ''missing 1 required positional argument: position''), l)
 \<and> seek_async invoke self (Given p) timeout
     = Inr (await_only (invoke self
         \<lparr>method_name = ''seek'', arguments = Given [(''position'', p)],
          timeout_kw = value_or (Some 10) timeout\<rparr>))
 \<and> play_async invoke self Omitted timeout
     = Inr (await_only (invoke self
         \<lparr>method_name = ''play'',
          arguments = Given [(''position'', DDuration Duration_init)],
          timeout_kw = value_or (Some 10) timeout\<rparr>))
 \<and> play invoke self Omitted timeout l
     = create_task (await_only (invoke self
         \<lparr>method_name = ''play'',
          arguments = Given [(''position'', DDuration Duration_init)],
          timeout_kw = value_or (Some 10) timeout\<rparr>)) l
 \<and> Duration_init
     = \<lparr>microseconds = 0, milliseconds = 0, seconds = 0, minutes = 0, hours = 0, days = 0\<rparr>
 \<and> (running l \<and> ready l = [] \<longrightarrow>
      snd (run_once (snd (play invoke self Omitted timeout l)) s)
        = snd (invoke self
            \<lparr>method_name = ''play'',
             arguments = Given [(''position'', DDuration Duration_init)],
             timeout_kw = value_or (Some 10) timeout\<rparr> s))"
proof -
  have bound:
    "play_async invoke self Omitted timeout
       = Inr (await_only (invoke self
           \<lparr>method_name = ''play'',
            arguments = Given [(''position'', DDuration Duration_init)],
            timeout_kw = value_or (Some 10) timeout\<rparr>))"
    "play invoke self Omitted timeout l
       = create_task (await_only (invoke self
           \<lparr>method_name = ''play'',
            arguments = Given [(''position'', DDuration Duration_init)],
            timeout_kw = value_or (Some 10) timeout\<rparr>)) l"
    by (simp_all add: play_async_eq play_eq value_or_Omitted)
  have same:
    "play_async invoke self Omitted timeout
       = play_async invoke self (Given (DDuration Duration_init)) timeout"
    "play invoke self Omitted timeout l
       = play invoke self (Given (DDuration Duration_init)) timeout l"
    by (simp_all add: play_async_eq play_eq value_or_def)
  have zero:
    "in_microseconds Duration_init = 0"
    "Duration_init
       = \<lparr>microseconds = 0, milliseconds = 0, seconds = 0, minutes = 0, hours = 0, days = 0\<rparr>"
    by (simp_all add: in_microseconds_def Duration_init_def)
  have required:
    "seek_async invoke self Omitted timeout
       = Inl (TypeError ''missing 1 required positional argument: position'')"
    "seek invoke self Omitted timeout l
       = (Inl (TypeError ''missing 1 required positional argument: position''), l)"
    "seek_async invoke self (Given p) timeout
       = Inr (await_only (invoke self
           \<lparr>method_name = ''seek'', arguments = Given [(''position'', p)],
            timeout_kw = value_or (Some 10) timeout\<rparr>))"
    by (simp_all add: seek_async_no_position seek_no_position seek_async_eq)
  have sent:
    "running l \<and> ready l = [] \<longrightarrow>
      snd (run_once (snd (play invoke self Omitted timeout l)) s)
        = snd (invoke self
            \<lparr>method_name = ''play'',
             arguments = Given [(''position'', DDuration Duration_init)],
             timeout_kw = value_or (Some 10) timeout\<rparr> s)"
    by (simp add: bound create_task_snd run_single_state)
  show ?thesis
    by (intro conjI) (fact bound same zero required sent)+
qed

theorem play_position_defaults_seek_requires_it_witness:
  "fst (seek send (Audio_init :: nat Audio) Omitted Omitted
         \<lparr>running = True, ready = [], reported = []\<rparr>)
     = Inl (TypeError ''missing 1 required positional argument: position'')
   \<and> fst (play send (Audio_init :: nat Audio) Omitted Omitted
         \<lparr>running = True, ready = [], reported = []\<rparr>) = Inr ()
   \<and> snd (run_once (snd (play send (Audio_init :: nat Audio) Omitted Omitted
                           \<lparr>running = True, ready = [], reported = []\<rparr>))
                    \<lparr>latency = 1, answer = Inr None, received = []\<rparr>)
       = \<lparr>latency = 1, answer = Inr None,
          received = [\<lparr>method_name = ''play'',
                       arguments = Given [(''position'',
                         DDuration \<lparr>microseconds = 0, milliseconds = 0, seconds = 0,
                                   minutes = 0, hours = 0, days = 0\<rparr>)],
                       timeout_kw = Some 10\<rparr>]\<rparr>"
proof -
  note inst =
    play_position_defaults_seek_requires_it
      [of send "Audio_init :: nat Audio" Omitted
          "\<lparr>running = True, ready = [], reported = []\<rparr>" "DInt 0"
          "\<lparr>latency = 1, answer = Inr None, received = []\<rparr>"]
  have seek_fails: "fst (seek send (Audio_init :: nat Audio) Omitted Omitted
         \<lparr>running = True, ready = [], reported = []\<rparr>)
     = Inl (TypeError ''missing 1 required positional argument: position'')"
    using inst [THEN conjunct2, THEN conjunct2, THEN conjunct2, THEN conjunct2, THEN conjunct1]
    by simp
  have play_runs: "fst (play send (Audio_init :: nat Audio) Omitted Omitted
         \<lparr>running = True, ready = [], reported = []\<rparr>) = Inr ()"
    using inst [THEN conjunct2, THEN conjunct2, THEN conjunct2, THEN conjunct2,
        THEN conjunct2, THEN conjunct2, THEN conjunct2, THEN conjunct1]
    by (simp add: create_task_fst)
  have play_sends: "snd (run_once (snd (play send (Audio_init :: nat Audio) Omitted Omitted
                           \<lparr>running = True, ready = [], reported = []\<rparr>))
                    \<lparr>latency = 1, answer = Inr None, received = []\<rparr>)
       = \<lparr>latency = 1, answer = Inr None,
          received = [\<lparr>method_name = ''play'',
                       arguments = Given [(''position'',
                         DDuration \<lparr>microseconds = 0, milliseconds = 0, seconds = 0,
                                   minutes = 0, hours = 0, days = 0\<rparr>)],
                       timeout_kw = Some 10\<rparr>]\<rparr>"
    using inst [THEN conjunct2, THEN conjunct2, THEN conjunct2, THEN conjunct2,
        THEN conjunct2, THEN conjunct2, THEN conjunct2, THEN conjunct2, THEN conjunct2]
    by (simp add: send_def value_or_def Duration_init_def)
  show ?thesis
    using seek_fails play_runs play_sends by (intro conjI)
qed

lemma send_waits_without_limit:
  "timeout_kw c = None \<Longrightarrow> fst (send self c r) = answer r"
  by (simp add: send_def)

lemma send_fst:
  "fst (send self c r) =
     (case timeout_kw c of
        None \<Rightarrow> answer r
      | Some t \<Rightarrow> if latency r \<le> t then answer r else Inl TimeoutError)"
  by (simp add: send_def split: option.splits)

lemma await_only_map_sum: "fst (await_only c s) = map_sum id (\<lambda>v. ()) (fst (c s))"
  by (simp add: await_only_fst split: sum.splits)

lemma run_single_reported:
  "reported (fst (run_once (l\<lparr>ready := [await_only c]\<rparr>) s))
     = reported l @ (case fst (c s) of Inl e \<Rightarrow> [e] | Inr v \<Rightarrow> [])"
  by (cases "c s") (auto simp add: run_once_def await_only_def split: sum.splits)

text \<open>
  C4. In each of the twelve methods, a call without \<^verbatim>\<open>timeout\<close> is the call with
  \<^verbatim>\<open>timeout=10\<close>, and a timeout that is passed, \<^verbatim>\<open>None\<close> included, is accepted
  and reaches the channel as it is. The module does not compute with the value; what it
  means is the channel's reading of it. On the channel of the spec, whose latency is
  counted in seconds, every suspending form called with a number \<open>t\<close> ends with the
  answer of the remote side if that comes within \<open>t\<close> seconds and with
  \<^verbatim>\<open>TimeoutError\<close> if it does not; called without a timeout it does so with
  \<open>t = 10\<close>; called with \<^verbatim>\<open>None\<close> it ends with the answer however long the remote
  side takes. The task that a plain form schedules behaves the same way when the loop
  runs it: what the loop reports is the failure of the answer, or \<^verbatim>\<open>TimeoutError\<close>
  where the answer comes later than the timeout, and never \<^verbatim>\<open>TimeoutError\<close> for
  waiting where the timeout is \<^verbatim>\<open>None\<close>.
\<close>

theorem timeout_defaults_to_ten:
  "play_async invoke self position Omitted
     = play_async invoke self position (Given (Some 10))
 \<and> pause_async invoke self Omitted = pause_async invoke self (Given (Some 10))
 \<and> resume_async invoke self Omitted = resume_async invoke self (Given (Some 10))
 \<and> release_async invoke self Omitted = release_async invoke self (Given (Some 10))
 \<and> seek_async invoke self position Omitted
     = seek_async invoke self position (Given (Some 10))
 \<and> get_duration_async invoke self Omitted
     = get_duration_async invoke self (Given (Some 10))
 \<and> get_current_position_async invoke self Omitted
     = get_current_position_async invoke self (Given (Some 10))
 \<and> play invoke self position Omitted l = play invoke self position (Given (Some 10)) l
 \<and> pause invoke self Omitted l = pause invoke self (Given (Some 10)) l
 \<and> resume invoke self Omitted l = resume invoke self (Given (Some 10)) l
 \<and> release invoke self Omitted l = release invoke self (Given (Some 10)) l
 \<and> seek invoke self position Omitted l = seek invoke self position (Given (Some 10)) l
 \<and> await (play_async invoke self (Given p) (Given t))
     = await_only (invoke self
         \<lparr>method_name = ''play'', arguments = Given [(''position'', p)], timeout_kw = t\<rparr>)
 \<and> await (pause_async invoke self (Given t))
     = await_only (invoke self
         \<lparr>method_name = ''pause'', arguments = Omitted, timeout_kw = t\<rparr>)
 \<and> await (resume_async invoke self (Given t))
     = await_only (invoke self
         \<lparr>method_name = ''resume'', arguments = Omitted, timeout_kw = t\<rparr>)
 \<and> await (release_async invoke self (Given t))
     = await_only (invoke self
         \<lparr>method_name = ''release'', arguments = Omitted, timeout_kw = t\<rparr>)
 \<and> await (seek_async invoke self (Given p) (Given t))
     = await_only (invoke self
         \<lparr>method_name = ''seek'', arguments = Given [(''position'', p)], timeout_kw = t\<rparr>)
 \<and> await (get_duration_async invoke self (Given t))
     = invoke self \<lparr>method_name = ''get_duration'', arguments = Omitted, timeout_kw = t\<rparr>
 \<and> await (get_current_position_async invoke self (Given t))
     = invoke self
         \<lparr>method_name = ''get_current_position'', arguments = Omitted, timeout_kw = t\<rparr>
 \<and> play invoke self (Given p) (Given t) l
     = create_task (await_only (invoke self
         \<lparr>method_name = ''play'', arguments = Given [(''position'', p)], timeout_kw = t\<rparr>)) l
 \<and> pause invoke self (Given t) l
     = create_task (await_only (invoke self
         \<lparr>method_name = ''pause'', arguments = Omitted, timeout_kw = t\<rparr>)) l
 \<and> resume invoke self (Given t) l
     = create_task (await_only (invoke self
         \<lparr>method_name = ''resume'', arguments = Omitted, timeout_kw = t\<rparr>)) l
 \<and> release invoke self (Given t) l
     = create_task (await_only (invoke self
         \<lparr>method_name = ''release'', arguments = Omitted, timeout_kw = t\<rparr>)) l
 \<and> seek invoke self (Given p) (Given t) l
     = create_task (await_only (invoke self
         \<lparr>method_name = ''seek'', arguments = Given [(''position'', p)], timeout_kw = t\<rparr>)) l
 \<and> (\<forall>call \<in> {play_async send self position, pause_async send self,
                  resume_async send self, release_async send self,
                  seek_async send self (Given p)}.
       fst (await (call (Given None)) r) = map_sum id (\<lambda>v. ()) (answer r)
     \<and> fst (await (call (Given (Some d))) r)
         = (if latency r \<le> d then map_sum id (\<lambda>v. ()) (answer r) else Inl TimeoutError)
     \<and> fst (await (call Omitted) r)
         = (if latency r \<le> 10 then map_sum id (\<lambda>v. ()) (answer r) else Inl TimeoutError))
 \<and> (\<forall>call \<in> {get_duration_async send self, get_current_position_async send self}.
       fst (await (call (Given None)) r) = answer r
     \<and> fst (await (call (Given (Some d))) r)
         = (if latency r \<le> d then answer r else Inl TimeoutError)
     \<and> fst (await (call Omitted) r)
         = (if latency r \<le> 10 then answer r else Inl TimeoutError))
 \<and> (\<forall>form \<in> {play send self position, pause send self, resume send self,
                  release send self, seek send self (Given p)}.
       running l \<and> ready l = [] \<longrightarrow>
         reported (fst (run_once (snd (form (Given None) l)) r))
           = reported l @ (case answer r of Inl e \<Rightarrow> [e] | Inr v \<Rightarrow> [])
       \<and> reported (fst (run_once (snd (form (Given (Some d)) l)) r))
           = reported l @ (if latency r \<le> d
                           then (case answer r of Inl e \<Rightarrow> [e] | Inr v \<Rightarrow> [])
                           else [TimeoutError])
       \<and> reported (fst (run_once (snd (form Omitted l)) r))
           = reported l @ (if latency r \<le> 10
                           then (case answer r of Inl e \<Rightarrow> [e] | Inr v \<Rightarrow> [])
                           else [TimeoutError]))"
proof -
  have void_forms:
    "\<forall>call \<in> {play_async send self position, pause_async send self,
                  resume_async send self, release_async send self,
                  seek_async send self (Given p)}.
       fst (await (call (Given None)) r) = map_sum id (\<lambda>v. ()) (answer r)
     \<and> fst (await (call (Given (Some d))) r)
         = (if latency r \<le> d then map_sum id (\<lambda>v. ()) (answer r) else Inl TimeoutError)
     \<and> fst (await (call Omitted) r)
         = (if latency r \<le> 10 then map_sum id (\<lambda>v. ()) (answer r) else Inl TimeoutError)"
    by (simp add: play_async_eq pause_async_eq resume_async_eq release_async_eq seek_async_eq
        await_Inr await_only_map_sum send_fst value_or_def)
  have query_forms:
    "\<forall>call \<in> {get_duration_async send self, get_current_position_async send self}.
       fst (await (call (Given None)) r) = answer r
     \<and> fst (await (call (Given (Some d))) r)
         = (if latency r \<le> d then answer r else Inl TimeoutError)
     \<and> fst (await (call Omitted) r)
         = (if latency r \<le> 10 then answer r else Inl TimeoutError)"
    by (simp add: get_duration_async_eq get_current_position_async_eq await_Inr send_fst
        value_or_def)
  have plain_forms:
    "\<forall>form \<in> {play send self position, pause send self, resume send self,
                  release send self, seek send self (Given p)}.
       running l \<and> ready l = [] \<longrightarrow>
         reported (fst (run_once (snd (form (Given None) l)) r))
           = reported l @ (case answer r of Inl e \<Rightarrow> [e] | Inr v \<Rightarrow> [])
       \<and> reported (fst (run_once (snd (form (Given (Some d)) l)) r))
           = reported l @ (if latency r \<le> d
                           then (case answer r of Inl e \<Rightarrow> [e] | Inr v \<Rightarrow> [])
                           else [TimeoutError])
       \<and> reported (fst (run_once (snd (form Omitted l)) r))
           = reported l @ (if latency r \<le> 10
                           then (case answer r of Inl e \<Rightarrow> [e] | Inr v \<Rightarrow> [])
                           else [TimeoutError])"
    by (simp add: play_eq pause_eq resume_eq release_eq seek_eq create_task_snd
        run_single_reported send_fst value_or_def)
  have seek_async_any:
    "seek_async invoke self position Omitted = seek_async invoke self position (Given (Some 10))"
    by (cases position) (simp_all add: seek_async_eq seek_async_no_position value_or_def)
  have seek_any:
    "seek invoke self position Omitted l = seek invoke self position (Given (Some 10)) l"
    by (cases position) (simp_all add: seek_eq seek_no_position value_or_def)
  have defaults:
    "play_async invoke self position Omitted
       = play_async invoke self position (Given (Some 10))"
    "pause_async invoke self Omitted = pause_async invoke self (Given (Some 10))"
    "resume_async invoke self Omitted = resume_async invoke self (Given (Some 10))"
    "release_async invoke self Omitted = release_async invoke self (Given (Some 10))"
    "get_duration_async invoke self Omitted
       = get_duration_async invoke self (Given (Some 10))"
    "get_current_position_async invoke self Omitted
       = get_current_position_async invoke self (Given (Some 10))"
    "play invoke self position Omitted l = play invoke self position (Given (Some 10)) l"
    "pause invoke self Omitted l = pause invoke self (Given (Some 10)) l"
    "resume invoke self Omitted l = resume invoke self (Given (Some 10)) l"
    "release invoke self Omitted l = release invoke self (Given (Some 10)) l"
    by (simp_all add: play_async_eq pause_async_eq resume_async_eq release_async_eq
        get_duration_async_eq get_current_position_async_eq play_eq pause_eq resume_eq
        release_eq value_or_def)
  have forwarded:
    "await (play_async invoke self (Given p) (Given t))
       = await_only (invoke self
           \<lparr>method_name = ''play'', arguments = Given [(''position'', p)], timeout_kw = t\<rparr>)"
    "await (pause_async invoke self (Given t))
       = await_only (invoke self
           \<lparr>method_name = ''pause'', arguments = Omitted, timeout_kw = t\<rparr>)"
    "await (resume_async invoke self (Given t))
       = await_only (invoke self
           \<lparr>method_name = ''resume'', arguments = Omitted, timeout_kw = t\<rparr>)"
    "await (release_async invoke self (Given t))
       = await_only (invoke self
           \<lparr>method_name = ''release'', arguments = Omitted, timeout_kw = t\<rparr>)"
    "await (seek_async invoke self (Given p) (Given t))
       = await_only (invoke self
           \<lparr>method_name = ''seek'', arguments = Given [(''position'', p)], timeout_kw = t\<rparr>)"
    "await (get_duration_async invoke self (Given t))
       = invoke self \<lparr>method_name = ''get_duration'', arguments = Omitted, timeout_kw = t\<rparr>"
    "await (get_current_position_async invoke self (Given t))
       = invoke self
           \<lparr>method_name = ''get_current_position'', arguments = Omitted, timeout_kw = t\<rparr>"
    by (simp_all add: play_async_eq pause_async_eq resume_async_eq release_async_eq
        seek_async_eq get_duration_async_eq get_current_position_async_eq await_Inr
        value_or_def)
  have scheduled:
    "play invoke self (Given p) (Given t) l
       = create_task (await_only (invoke self
           \<lparr>method_name = ''play'', arguments = Given [(''position'', p)], timeout_kw = t\<rparr>)) l"
    "pause invoke self (Given t) l
       = create_task (await_only (invoke self
           \<lparr>method_name = ''pause'', arguments = Omitted, timeout_kw = t\<rparr>)) l"
    "resume invoke self (Given t) l
       = create_task (await_only (invoke self
           \<lparr>method_name = ''resume'', arguments = Omitted, timeout_kw = t\<rparr>)) l"
    "release invoke self (Given t) l
       = create_task (await_only (invoke self
           \<lparr>method_name = ''release'', arguments = Omitted, timeout_kw = t\<rparr>)) l"
    "seek invoke self (Given p) (Given t) l
       = create_task (await_only (invoke self
           \<lparr>method_name = ''seek'', arguments = Given [(''position'', p)], timeout_kw = t\<rparr>)) l"
    by (simp_all add: play_eq pause_eq resume_eq release_eq seek_eq value_or_def)
  show ?thesis
    by (intro conjI)
      (fact defaults seek_async_any seek_any forwarded scheduled void_forms query_forms
         plain_forms)+
qed

theorem timeout_defaults_to_ten_witness:
  "await (get_duration_async send (Audio_init :: nat Audio) (Given None))
     \<lparr>latency = 86400, answer = Inr (Some Duration_init), received = []\<rparr>
     = (Inr (Some Duration_init),
        \<lparr>latency = 86400, answer = Inr (Some Duration_init),
         received = [\<lparr>method_name = ''get_duration'', arguments = Omitted,
                      timeout_kw = None\<rparr>]\<rparr>)
   \<and> await (get_duration_async send (Audio_init :: nat Audio) Omitted)
     \<lparr>latency = 86400, answer = Inr (Some Duration_init), received = []\<rparr>
     = (Inl TimeoutError,
        \<lparr>latency = 86400, answer = Inr (Some Duration_init),
         received = [\<lparr>method_name = ''get_duration'', arguments = Omitted,
                      timeout_kw = Some 10\<rparr>]\<rparr>)
   \<and> reported (fst (run_once
         (snd (pause send (Audio_init :: nat Audio) (Given None)
                \<lparr>running = True, ready = [], reported = []\<rparr>))
         \<lparr>latency = 86400, answer = Inr (Some Duration_init), received = []\<rparr>)) = []
   \<and> reported (fst (run_once
         (snd (pause send (Audio_init :: nat Audio) (Given (Some 86399))
                \<lparr>running = True, ready = [], reported = []\<rparr>))
         \<lparr>latency = 86400, answer = Inr (Some Duration_init), received = []\<rparr>))
       = [TimeoutError]
   \<and> reported (fst (run_once
         (snd (pause send (Audio_init :: nat Audio) Omitted
                \<lparr>running = True, ready = [], reported = []\<rparr>))
         \<lparr>latency = 86400, answer = Inr (Some Duration_init), received = []\<rparr>))
       = [TimeoutError]"
proof -
  note inst =
    timeout_defaults_to_ten
      [where invoke = send and self = "Audio_init :: nat Audio" and position = Omitted
         and p = "DInt 0" and d = 86399
         and l = "\<lparr>running = True, ready = [], reported = []\<rparr>"
         and r = "\<lparr>latency = 86400, answer = Inr (Some Duration_init), received = []\<rparr>"]
  note dflt = inst [THEN conjunct2, THEN conjunct2, THEN conjunct2, THEN conjunct2,
      THEN conjunct2, THEN conjunct1]
  note fwd = inst [THEN conjunct2, THEN conjunct2, THEN conjunct2, THEN conjunct2,
      THEN conjunct2, THEN conjunct2, THEN conjunct2, THEN conjunct2, THEN conjunct2,
      THEN conjunct2, THEN conjunct2, THEN conjunct2, THEN conjunct2, THEN conjunct2,
      THEN conjunct2, THEN conjunct2, THEN conjunct2, THEN conjunct1]
  note plain = inst [THEN conjunct2, THEN conjunct2, THEN conjunct2, THEN conjunct2, THEN conjunct2, THEN conjunct2, THEN conjunct2, THEN conjunct2, THEN conjunct2, THEN conjunct2, THEN conjunct2, THEN conjunct2, THEN conjunct2, THEN conjunct2, THEN conjunct2, THEN conjunct2, THEN conjunct2, THEN conjunct2, THEN conjunct2, THEN conjunct2, THEN conjunct2, THEN conjunct2, THEN conjunct2, THEN conjunct2, THEN conjunct2, THEN conjunct2]
  have queries:
    "await (get_duration_async send (Audio_init :: nat Audio) (Given None))
       \<lparr>latency = 86400, answer = Inr (Some Duration_init), received = []\<rparr>
       = (Inr (Some Duration_init),
          \<lparr>latency = 86400, answer = Inr (Some Duration_init),
           received = [\<lparr>method_name = ''get_duration'', arguments = Omitted,
                        timeout_kw = None\<rparr>]\<rparr>)
     \<and> await (get_duration_async send (Audio_init :: nat Audio) Omitted)
       \<lparr>latency = 86400, answer = Inr (Some Duration_init), received = []\<rparr>
       = (Inl TimeoutError,
          \<lparr>latency = 86400, answer = Inr (Some Duration_init),
           received = [\<lparr>method_name = ''get_duration'', arguments = Omitted,
                        timeout_kw = Some 10\<rparr>]\<rparr>)"
    by (simp add: dflt fwd send_def)
  have tasks:
    "reported (fst (run_once
         (snd (pause send (Audio_init :: nat Audio) (Given None)
                \<lparr>running = True, ready = [], reported = []\<rparr>))
         \<lparr>latency = 86400, answer = Inr (Some Duration_init), received = []\<rparr>)) = []
   \<and> reported (fst (run_once
         (snd (pause send (Audio_init :: nat Audio) (Given (Some 86399))
                \<lparr>running = True, ready = [], reported = []\<rparr>))
         \<lparr>latency = 86400, answer = Inr (Some Duration_init), received = []\<rparr>))
       = [TimeoutError]
   \<and> reported (fst (run_once
         (snd (pause send (Audio_init :: nat Audio) Omitted
                \<lparr>running = True, ready = [], reported = []\<rparr>))
         \<lparr>latency = 86400, answer = Inr (Some Duration_init), received = []\<rparr>))
       = [TimeoutError]"
    using plain by simp
  show ?thesis
    using queries tasks by simp
qed

text \<open>
  C6. The class defines \<^verbatim>\<open>get_duration_async\<close> and \<^verbatim>\<open>get_current_position_async\<close>
  and no method named \<^verbatim>\<open>get_duration\<close> or \<^verbatim>\<open>get_current_position\<close>. What either
  coroutine returns is the reply of the channel, unchanged: a \<^verbatim>\<open>Duration\<close> or
  \<^verbatim>\<open>None\<close>, and a reply of \<^verbatim>\<open>None\<close> is returned as a value, not raised.
\<close>

theorem queries_are_suspending_only:
  "''get_duration'' \<notin> set Audio_methods
 \<and> ''get_current_position'' \<notin> set Audio_methods
 \<and> ''get_duration_async'' \<in> set Audio_methods
 \<and> ''get_current_position_async'' \<in> set Audio_methods
 \<and> await (get_duration_async invoke self timeout)
     = invoke self \<lparr>method_name = ''get_duration'', arguments = Omitted,
                    timeout_kw = value_or (Some 10) timeout\<rparr>
 \<and> await (get_current_position_async invoke self timeout)
     = invoke self \<lparr>method_name = ''get_current_position'', arguments = Omitted,
                    timeout_kw = value_or (Some 10) timeout\<rparr>
 \<and> (invoke self \<lparr>method_name = ''get_duration'', arguments = Omitted,
                   timeout_kw = value_or (Some 10) timeout\<rparr> s = (Inr None, s')
      \<longrightarrow> await (get_duration_async invoke self timeout) s = (Inr None, s'))
 \<and> (invoke self \<lparr>method_name = ''get_current_position'', arguments = Omitted,
                   timeout_kw = value_or (Some 10) timeout\<rparr> s = (Inr None, s')
      \<longrightarrow> await (get_current_position_async invoke self timeout) s = (Inr None, s'))"
  by (simp add: Audio_methods_def get_duration_async_eq get_current_position_async_eq
      await_Inr)

theorem queries_are_suspending_only_witness:
  "await (get_duration_async send (Audio_init :: nat Audio) Omitted)
     \<lparr>latency = 1, answer = Inr None, received = []\<rparr>
     = (Inr None,
        \<lparr>latency = 1, answer = Inr None,
         received = [\<lparr>method_name = ''get_duration'', arguments = Omitted,
                      timeout_kw = Some 10\<rparr>]\<rparr>)"
proof -
  let ?r = "\<lparr>latency = 1, answer = Inr None, received = []\<rparr>"
  let ?r' = "\<lparr>latency = 1, answer = Inr None,
              received = [\<lparr>method_name = ''get_duration'', arguments = Omitted,
                           timeout_kw = Some 10\<rparr>]\<rparr>"
  have reply: "send (Audio_init :: nat Audio)
                 \<lparr>method_name = ''get_duration'', arguments = Omitted,
                  timeout_kw = value_or (Some 10) Omitted\<rparr> ?r = (Inr None, ?r')"
    by (simp add: send_def value_or_def)
  note inst = queries_are_suspending_only
      [of send "Audio_init :: nat Audio" Omitted ?r ?r']
  from inst have step: "send (Audio_init :: nat Audio)
                 \<lparr>method_name = ''get_duration'', arguments = Omitted,
                  timeout_kw = value_or (Some 10) Omitted\<rparr> ?r = (Inr None, ?r')
      \<longrightarrow> await (get_duration_async send (Audio_init :: nat Audio) Omitted) ?r = (Inr None, ?r')"
    by (elim conjE)
  from step reply show ?thesis
    by (rule mp)
qed

text \<open>
  C7. With \<^verbatim>\<open>src\<close> and \<^verbatim>\<open>src_base64\<close> both non-empty, the effective source is the
  content of \<^verbatim>\<open>src_base64\<close>.
\<close>

theorem src_base64_takes_precedence:
  assumes "src self = Some u" and "u \<noteq> []" and "src_base64 self = Some b" and "b \<noteq> []"
  shows "effective_source self = Some (From_src_base64 b)"
  using assms by (simp add: effective_source_def)

theorem src_base64_takes_precedence_witness:
  "effective_source ((Audio_init :: nat Audio)\<lparr>src := Some ''a.mp3'', src_base64 := Some ''UklGRg==''\<rparr>)
     = Some (From_src_base64 ''UklGRg=='')"
  by (rule src_base64_takes_precedence [where u = "''a.mp3''"]) simp_all

end
